theory Spec2Isabelle
  imports
    Complex_Main
    "HOL-Library.Sublist"
    "HOL-Library.Multiset"
    "HOL-Library.Char_ord"
    "HOL-Library.List_Lexorder"
    "HOL-Library.Product_Lexorder"
begin

section \<open>The data model of app.py\<close>

text \<open>
  The dashboard script loads one table (\<^verbatim>\<open>df = load_data()\<close>) and derives every
  chart from it with pandas pipelines. A row of the table carries the columns the script
  reads. A cell may be missing (NaN / None in pandas), so every column is optional.
  Numbers are exact rationals: rounding of binary floating point is not modelled.
\<close>

record Row =
  Year :: "int option"
  Country :: "string option"
  Segment :: "string option"
  Product :: "string option"
  Sales :: "rat option"
  Profit :: "rat option"
  Discount_Band :: "string option"
  Month_Name :: "string option"

type_synonym Table = "Row list"

section \<open>Sidebar filters (lines 183--213)\<close>

text \<open>
  \<^verbatim>\<open>sorted(df[col].dropna().unique())\<close>: the distinct non-missing values of a column in
  ascending order. They are the options and the default selection of each multiselect.
\<close>

definition dropna_unique_sorted :: "(Row \<Rightarrow> 'a::linorder option) \<Rightarrow> Table \<Rightarrow> 'a list" where
  "dropna_unique_sorted col df = sort (remdups (List.map_filter col df))"

definition year_options :: "Table \<Rightarrow> int list" where
  "year_options df = dropna_unique_sorted Year df"

definition country_options :: "Table \<Rightarrow> string list" where
  "country_options df = dropna_unique_sorted Country df"

definition segment_options :: "Table \<Rightarrow> string list" where
  "segment_options df = dropna_unique_sorted Segment df"

text \<open>
  The three multiselect widgets return the selected options. A selection is a list of
  values taken from the options, which never hold a missing value (\<^verbatim>\<open>dropna()\<close>), so the
  selection lists hold plain values.
\<close>

record FilterSpec =
  year_filter :: "int list"
  country_filter :: "string list"
  segment_filter :: "string list"

text \<open>The state of the widgets before the user touches them: \<^verbatim>\<open>default=..._options\<close>.\<close>

definition default_filter :: "Table \<Rightarrow> FilterSpec" where
  "default_filter df =
     \<lparr> year_filter = year_options df,
       country_filter = country_options df,
       segment_filter = segment_options df \<rparr>"

text \<open>
  \<^verbatim>\<open>Series.isin(values)\<close> for a list of non-missing values: a missing cell is in no
  such list.
\<close>

definition isin :: "'a option \<Rightarrow> 'a list \<Rightarrow> bool" where
  "isin v allowed = (case v of None \<Rightarrow> False | Some x \<Rightarrow> x \<in> set allowed)"

text \<open>
  \<^verbatim>\<open>filtered_df = df[df["Year"].isin(year_filter) & df["Country"].isin(country_filter)
                      & df["Segment"].isin(segment_filter)]\<close>:
  boolean-mask indexing keeps the rows whose mask is true, in the order of \<open>df\<close>.
\<close>

definition filtered_df :: "Table \<Rightarrow> FilterSpec \<Rightarrow> Table" where
  "filtered_df df spec =
     filter (\<lambda>r. isin (Year r) (year_filter spec)
                \<and> isin (Country r) (country_filter spec)
                \<and> isin (Segment r) (segment_filter spec)) df"

section \<open>Grouping and summing\<close>

text \<open>
  \<^verbatim>\<open>df.groupby(cols, as_index=False)[val].sum()\<close> with the defaults of pandas
  (\<^verbatim>\<open>sort=True\<close>, \<^verbatim>\<open>dropna=True\<close>): rows with a missing key are dropped, one output row per
  distinct key, keys in ascending order, and \<^verbatim>\<open>sum\<close> skips missing values (an all-missing
  group sums to 0).
\<close>

definition group_keys :: "('r \<Rightarrow> 'k::linorder option) \<Rightarrow> 'r list \<Rightarrow> 'k list" where
  "group_keys key df = sort (remdups (List.map_filter key df))"

definition nansum :: "rat option list \<Rightarrow> rat" where
  "nansum vs = sum_list (map (\<lambda>v. case v of None \<Rightarrow> 0 | Some x \<Rightarrow> x) vs)"

definition groupby_sum ::
  "('r \<Rightarrow> 'k::linorder option) \<Rightarrow> ('r \<Rightarrow> rat option) \<Rightarrow> 'r list \<Rightarrow> ('k \<times> rat) list" where
  "groupby_sum key val df =
     map (\<lambda>k. (k, nansum (map val (filter (\<lambda>r. key r = Some k) df)))) (group_keys key df)"

text \<open>Grouping by two columns: the key is the pair, missing when either part is.\<close>

definition key2 :: "('r \<Rightarrow> 'a option) \<Rightarrow> ('r \<Rightarrow> 'b option) \<Rightarrow> 'r \<Rightarrow> ('a \<times> 'b) option" where
  "key2 c1 c2 r =
     (case c1 r of None \<Rightarrow> None
      | Some a \<Rightarrow> (case c2 r of None \<Rightarrow> None | Some b \<Rightarrow> Some (a, b)))"

text \<open>\<^verbatim>\<open>df[df["Product"] == product_selected]\<close>: a missing cell equals no value.\<close>

definition product_eq :: "Table \<Rightarrow> string \<Rightarrow> Table" where
  "product_eq df product_selected = filter (\<lambda>r. Product r = Some product_selected) df"

text \<open>Lines 239--243 and 493--497.\<close>

definition sales_trend_df :: "Table \<Rightarrow> string \<Rightarrow> (int \<times> rat) list" where
  "sales_trend_df fdf product_selected = groupby_sum Year Sales (product_eq fdf product_selected)"

definition monthly_sales_df :: "Table \<Rightarrow> string \<Rightarrow> (string \<times> rat) list" where
  "monthly_sales_df fdf product_month_selected =
     groupby_sum Month_Name Sales (product_eq fdf product_month_selected)"

section \<open>Sorting and truncating\<close>

text \<open>
  \<^verbatim>\<open>.sort_values(by=col, ascending=False)\<close> is called with the default
  \<^verbatim>\<open>kind="quicksort"\<close>. pandas hands the column to numpy's argsort of that kind, and
  documents that only the kinds mergesort and stable keep the order of equal values. The
  source therefore fixes that the result is a rearrangement of the rows in descending
  order of the column, and leaves the order of rows with equal values to the algorithm.
  The algorithm is a parameter \<open>kind\<close> of the model; \<open>sorts_descending\<close> is what every kind
  guarantees and \<open>keeps_tie_order\<close> is what a stable kind adds.
\<close>

definition sorts_descending :: "(('k \<times> rat) list \<Rightarrow> ('k \<times> rat) list) \<Rightarrow> bool" where
  "sorts_descending kind =
     (\<forall>xs. mset (kind xs) = mset xs \<and> sorted_wrt (\<lambda>a b. snd b \<le> snd a) (kind xs))"


text \<open>\<^verbatim>\<open>.head(n)\<close>: the first \<open>n\<close> rows, all of them when there are fewer.\<close>

definition head :: "nat \<Rightarrow> 'a list \<Rightarrow> 'a list" where
  "head n xs = take n xs"

text \<open>\<^verbatim>\<open>.sort_values(by=col, ascending=False).head(n)\<close> (lines 403--404, 295 and 305).\<close>

definition sort_values_head ::
  "(('k \<times> rat) list \<Rightarrow> ('k \<times> rat) list) \<Rightarrow> nat \<Rightarrow> ('k \<times> rat) list \<Rightarrow> ('k \<times> rat) list" where
  "sort_values_head kind n xs = head n (kind xs)"

text \<open>Lines 291--296, 305 and 399--405.\<close>

definition profit_by_segment_country ::
  "(((string \<times> string) \<times> rat) list \<Rightarrow> ((string \<times> string) \<times> rat) list) \<Rightarrow> Table
     \<Rightarrow> ((string \<times> string) \<times> rat) list" where
  "profit_by_segment_country kind fdf = kind (groupby_sum (key2 Segment Country) Profit fdf)"

definition top_profit_df ::
  "(((string \<times> string) \<times> rat) list \<Rightarrow> ((string \<times> string) \<times> rat) list) \<Rightarrow> Table \<Rightarrow> nat
     \<Rightarrow> ((string \<times> string) \<times> rat) list" where
  "top_profit_df kind fdf top_n = head top_n (profit_by_segment_country kind fdf)"

definition top_products_df ::
  "((string \<times> rat) list \<Rightarrow> (string \<times> rat) list) \<Rightarrow> Table \<Rightarrow> nat \<Rightarrow> (string \<times> rat) list" where
  "top_products_df kind fdf top_products_n =
     sort_values_head kind top_products_n (groupby_sum Product Sales fdf)"

text \<open>Lines 338--342 and 350--352.\<close>

definition country_product_sales :: "Table \<Rightarrow> ((string \<times> string) \<times> rat) list" where
  "country_product_sales fdf = groupby_sum (key2 Country Product) Sales fdf"

definition country_sales_df ::
  "(((string \<times> string) \<times> rat) list \<Rightarrow> ((string \<times> string) \<times> rat) list) \<Rightarrow> Table \<Rightarrow> string
     \<Rightarrow> ((string \<times> string) \<times> rat) list" where
  "country_sales_df kind fdf country_selected =
     kind (filter (\<lambda>r. fst (fst r) = country_selected) (country_product_sales fdf))"

text \<open>
  Two algorithms that sort in descending order. The first is what pandas does for a
  stable kind: reverse, sort ascending keeping the order of equal values, reverse. The
  second sorts ascending and reverses, which turns the order of equal values around.
\<close>

definition stable_kind :: "('k \<times> rat) list \<Rightarrow> ('k \<times> rat) list" where
  "stable_kind xs = rev (sort_key snd (rev xs))"


section \<open>Trend metrics (lines 245--255)\<close>

text \<open>
  The values read with \<^verbatim>\<open>.iloc\<close> are numpy scalars. Their division does not raise on a
  zero divisor: it yields an infinity, or NaN for 0/0.
\<close>

datatype float64 = Finite rat | PosInf | NegInf | NaN

definition true_divide :: "rat \<Rightarrow> rat \<Rightarrow> float64" where
  "true_divide a b =
     (if b = 0 then (if 0 < a then PosInf else if a < 0 then NegInf else NaN)
      else Finite (a / b))"

definition times100 :: "float64 \<Rightarrow> float64" where
  "times100 x = (case x of Finite q \<Rightarrow> Finite (q * 100) | PosInf \<Rightarrow> PosInf
                 | NegInf \<Rightarrow> NegInf | NaN \<Rightarrow> NaN)"

definition mean :: "rat list \<Rightarrow> rat" where
  "mean vs = sum_list vs / of_nat (length vs)"

record TrendMetrics =
  latest :: rat
  sales_change :: rat
  pct_change :: float64
  average :: rat

text \<open>
  \<^verbatim>\<open>
  if not sales_trend_df.empty:
      if len(sales_trend_df) > 1:
          sales_change = sales_trend_df["Sales"].iloc[-1] - sales_trend_df["Sales"].iloc[0]
          pct_change = (sales_change / sales_trend_df["Sales"].iloc[0]) * 100
          st.metric("Latest Year", ...iloc[-1])
          st.metric("Total Change", sales_change, pct_change)
          st.metric("Average Sales", ...mean())
  \<close>
  The result is the metrics shown, \<open>None\<close> when none is.
\<close>

definition trend_metrics :: "(int \<times> rat) list \<Rightarrow> TrendMetrics option" where
  "trend_metrics series =
     (if series = [] then None
      else if 1 < length series then
        (let change = snd (last series) - snd (hd series) in
         Some \<lparr> latest = snd (last series),
                sales_change = change,
                pct_change = times100 (true_divide change (snd (hd series))),
                average = mean (map snd series) \<rparr>)
      else None)"

section \<open>Example tables\<close>

definition row :: "int \<Rightarrow> string \<Rightarrow> string \<Rightarrow> string \<Rightarrow> rat \<Rightarrow> rat \<Rightarrow> string \<Rightarrow> Row" where
  "row y c s p sales profit m =
     \<lparr> Year = Some y, Country = Some c, Segment = Some s, Product = Some p,
       Sales = Some sales, Profit = Some profit, Discount_Band = Some ''Low'',
       Month_Name = Some m \<rparr>"

definition example_df :: Table where
  "example_df =
     [row 2020 ''US'' ''A'' ''Paseo'' 100 10 ''January'',
      row 2021 ''US'' ''A'' ''Velo'' 200 40 ''February'',
      row 2020 ''DE'' ''B'' ''Paseo'' 50 5 ''April'']"

definition no_country_df :: Table where
  "no_country_df = [(row 2020 ''US'' ''A'' ''Paseo'' 100 10 ''January'')\<lparr>Country := None\<rparr>]"

definition no_product_df :: Table where
  "no_product_df = [(row 2020 ''US'' ''A'' ''Paseo'' 100 10 ''January'')\<lparr>Product := None\<rparr>]"


definition months_df :: Table where
  "months_df =
     [row 2020 ''US'' ''A'' ''Paseo'' 1 1 ''January'',
      row 2020 ''US'' ''A'' ''Paseo'' 2 1 ''February'',
      row 2020 ''US'' ''A'' ''Paseo'' 3 1 ''March'',
      row 2020 ''US'' ''A'' ''Paseo'' 4 1 ''April'']"


section \<open>Facts about the filter and the grouping\<close>

lemma set_map_filter: "set (List.map_filter f xs) = {y. \<exists>x \<in> set xs. f x = Some y}"
  by (induction xs) (auto simp: List.map_filter_simps split: option.splits)

lemma set_dropna_unique_sorted:
  "set (dropna_unique_sorted col df) = {y. \<exists>r \<in> set df. col r = Some y}"
  by (simp add: dropna_unique_sorted_def set_map_filter)

lemma isin_options: "r \<in> set df \<Longrightarrow> isin (col r) (dropna_unique_sorted col df) = (col r \<noteq> None)"
  by (cases "col r") (auto simp: isin_def set_dropna_unique_sorted)

lemma filtered_default:
  "filtered_df df (default_filter df) =
     filter (\<lambda>r. Year r \<noteq> None \<and> Country r \<noteq> None \<and> Segment r \<noteq> None) df"
  unfolding filtered_df_def default_filter_def year_options_def country_options_def segment_options_def
  by (rule filter_cong) (simp_all add: isin_options)

lemma filter_id_iff: "filter P xs = xs \<longleftrightarrow> (\<forall>x \<in> set xs. P x)"
  by (simp add: filter_id_conv)


lemma distinct_group_keys: "distinct (group_keys key df)"
  by (simp add: group_keys_def)

lemma sorted_group_keys: "sorted (group_keys key df)"
  by (simp add: group_keys_def)

lemma map_fst_groupby_sum: "map fst (groupby_sum key val df) = group_keys key df"
  by (simp add: groupby_sum_def o_def)






section \<open>Facts about sorting\<close>





lemma desc_rev_sort_key: "sorted_wrt (\<lambda>a b. snd b \<le> snd a) (rev (sort_key snd ys))"
  for ys :: "('k \<times> rat) list"
proof -
  have "sorted (map snd (sort_key snd ys))" by (rule sorted_sort_key)
  then have "sorted_wrt (\<lambda>a b. snd a \<le> snd b) (sort_key snd ys)" by (simp only: sorted_map)
  then show ?thesis by (simp only: sorted_wrt_rev)
qed

lemma sorts_descending_stable_kind: "sorts_descending stable_kind"
  unfolding sorts_descending_def stable_kind_def by (simp add: desc_rev_sort_key)



lemma head_length: "length (head n xs) = min n (length xs)"
  by (simp add: head_def min.commute)







section \<open>Trend metrics: the claims\<close>

text \<open>
  On the series [(2020, 0), (2021, 50)] the percent change shown is plus infinity: the
  division by the zero baseline is carried out and no error is signalled.
\<close>

theorem pct_change_zero_baseline_counterexample:
  "map_option pct_change (trend_metrics [(2020, 0), (2021, 50)]) = Some PosInf"
  by (simp add: trend_metrics_def true_divide_def times100_def)

text \<open>
  C1, as the code has it: for every ordered series with at least 2 points whose first
  value is 0, the metrics are shown and the percent change is an infinity with the sign
  of the last value, or NaN when the last value is 0 as well. No DivisionByZero condition
  is raised or returned.
\<close>

theorem pct_change_zero_baseline:
  assumes "1 < length series" and "snd (hd series) = 0"
  shows "map_option pct_change (trend_metrics series) =
         Some (if 0 < snd (last series) then PosInf
               else if snd (last series) < 0 then NegInf else NaN)"
proof -
  from assms(1) have "series \<noteq> []" by auto
  with assms show ?thesis
    by (simp add: trend_metrics_def true_divide_def times100_def Let_def)
qed

theorem pct_change_zero_baseline_witness:
  "1 < length [(2020::int, 0::rat), (2021, -50)] \<and> snd (hd [(2020::int, 0::rat), (2021, -50)]) = 0
   \<and> map_option pct_change (trend_metrics [(2020, 0), (2021, -50)]) = Some NegInf"
  using pct_change_zero_baseline [of "[(2020, 0), (2021, -50)]"] by simp

text \<open>
  On the single-point series [(2020, 100)] nothing is shown, the latest value included.
\<close>

theorem single_point_counterexample: "trend_metrics [(2020, 100)] = None"
  by (simp add: trend_metrics_def)

text \<open>
  C2, as the code has it: for every single-point ordered series no metric is reported.
  The guard \<^verbatim>\<open>len(sales_trend_df) > 1\<close> encloses the latest value and the average as well
  as the change and the percent change, so all four are absent.
\<close>

theorem single_point_no_metrics: "length series = 1 \<Longrightarrow> trend_metrics series = None"
  by (auto simp: trend_metrics_def)

theorem single_point_no_metrics_witness:
  "length [(2021::int, 75::rat)] = 1 \<and> trend_metrics [(2021, 75)] = None"
  using single_point_no_metrics [of "[(2021, 75)]"] by simp

text \<open>
  C3: on the two-point series [(2020, 100), (2021, 150)] the metrics are latest = 150,
  change = 150 - 100 = 50, percent change = 50 / 100 * 100 = 50 and average =
  (100 + 150) / 2 = 125.
\<close>

theorem two_point_metrics:
  "trend_metrics [(2020, 100), (2021, 150)] =
     Some \<lparr> latest = 150, sales_change = 50, pct_change = Finite 50, average = 125 \<rparr>"
  by (simp add: trend_metrics_def true_divide_def times100_def mean_def)

section \<open>The filter: the claims\<close>

text \<open>
  C4: for every table and every selection, the filtered table is a subsequence of the
  table: its rows are rows of the table, in their original relative order.
\<close>

theorem filtered_df_subseq:
  "subseq (filtered_df df spec) df \<and> set (filtered_df df spec) \<subseteq> set df"
  by (simp add: filtered_df_def)

theorem filtered_df_subseq_witness:
  "subseq (filtered_df example_df
            \<lparr> year_filter = [2020], country_filter = [''DE'', ''US''], segment_filter = [''A'', ''B''] \<rparr>)
          example_df
   \<and> filtered_df example_df
        \<lparr> year_filter = [2020], country_filter = [''DE'', ''US''], segment_filter = [''A'', ''B''] \<rparr>
      = [row 2020 ''US'' ''A'' ''Paseo'' 100 10 ''January'',
         row 2020 ''DE'' ''B'' ''Paseo'' 50 5 ''April'']"
proof -
  have "filtered_df example_df
        \<lparr> year_filter = [2020], country_filter = [''DE'', ''US''], segment_filter = [''A'', ''B''] \<rparr>
      = [row 2020 ''US'' ''A'' ''Paseo'' 100 10 ''January'',
         row 2020 ''DE'' ''B'' ''Paseo'' 50 5 ''April'']"
    by (simp add: filtered_df_def example_df_def row_def isin_def)
  with filtered_df_subseq [of example_df
      "\<lparr> year_filter = [2020], country_filter = [''DE'', ''US''], segment_filter = [''A'', ''B''] \<rparr>"]
  show ?thesis by blast
qed

text \<open>
  The source has no selection without constrained columns: Year, Country and Segment are
  always tested. The selection that restricts nothing is the default one, every option
  selected. Under it a table whose only row has no Country comes back empty.
\<close>

theorem default_filter_counterexample:
  "filtered_df no_country_df (default_filter no_country_df) = [] \<and> no_country_df \<noteq> []"
  by (simp add: filtered_df_def no_country_df_def row_def isin_def)

text \<open>
  C5, as the code has it: with every option selected the filter returns exactly the rows
  whose Year, Country and Segment are all present, so it returns the table unchanged if
  and only if no row misses one of these three values. Missing values in other columns
  do not matter.
\<close>

theorem default_filter_keeps_non_null:
  "filtered_df df (default_filter df) =
     filter (\<lambda>r. Year r \<noteq> None \<and> Country r \<noteq> None \<and> Segment r \<noteq> None) df
   \<and> (filtered_df df (default_filter df) = df \<longleftrightarrow>
        (\<forall>r \<in> set df. Year r \<noteq> None \<and> Country r \<noteq> None \<and> Segment r \<noteq> None))"
  by (simp only: filtered_default filter_id_iff)

theorem default_filter_keeps_non_null_witness:
  "Product (last (example_df @ no_product_df)) = None
   \<and> filtered_df (example_df @ no_product_df) (default_filter (example_df @ no_product_df))
       = example_df @ no_product_df"
proof -
  have h: "\<forall>r \<in> set (example_df @ no_product_df).
             Year r \<noteq> None \<and> Country r \<noteq> None \<and> Segment r \<noteq> None"
    by (simp add: example_df_def no_product_df_def row_def)
  have p: "Product (last (example_df @ no_product_df)) = None"
    by (simp add: no_product_df_def row_def)
  from h p default_filter_keeps_non_null [of "example_df @ no_product_df"] show ?thesis by blast
qed

text \<open>
  C6: for every table and every selection, a row with a missing Year, Country or Segment
  (the columns the selection constrains) is not in the filtered table.
\<close>

theorem null_never_matches:
  "Year r = None \<or> Country r = None \<or> Segment r = None \<Longrightarrow> r \<notin> set (filtered_df df spec)"
  by (auto simp: filtered_df_def isin_def)

theorem null_never_matches_witness:
  "Country (hd no_country_df) = None
   \<and> hd no_country_df \<in> set (example_df @ no_country_df)
   \<and> hd no_country_df \<notin> set (filtered_df (example_df @ no_country_df)
         \<lparr> year_filter = [2020, 2021], country_filter = [''DE'', ''US''], segment_filter = [''A'', ''B''] \<rparr>)"
proof -
  have h: "Country (hd no_country_df) = None" by (simp add: no_country_df_def row_def)
  have m: "hd no_country_df \<in> set (example_df @ no_country_df)" by (simp add: no_country_df_def)
  from h m show ?thesis using null_never_matches [of "hd no_country_df"] by blast
qed

section \<open>Grouping: the claims\<close>




text \<open>
  C10: for every table, the groups come out in ascending order of the group key, each key
  once. Month names are strings, so the months of January to April come out as April,
  February, January, March.
\<close>

theorem groups_in_key_order:
  "sorted (map fst (groupby_sum key val df)) \<and> distinct (map fst (groupby_sum key val df))
   \<and> map fst (monthly_sales_df months_df ''Paseo'') = [''April'', ''February'', ''January'', ''March'']"
proof -
  have "map fst (monthly_sales_df months_df ''Paseo'') = [''April'', ''February'', ''January'', ''March'']"
    by code_simp
  then show ?thesis
    by (simp only: map_fst_groupby_sum sorted_group_keys distinct_group_keys simp_thms)
qed

theorem groups_in_key_order_witness:
  "sorted (map fst (groupby_sum Year Sales (rev example_df)))
   \<and> groupby_sum Year Sales (rev example_df) = [(2020, 150), (2021, 200)]"
proof -
  have "groupby_sum Year Sales (rev example_df) = [(2020, 150), (2021, 200)]"
    by code_simp
  with groups_in_key_order [of Year Sales "rev example_df"] show ?thesis by blast
qed

section \<open>Sorting and truncating: the claims\<close>







end
